theory Spec2Isabelle
  imports Main "HOL-Library.Sublist"
begin

section \<open>Python strings\<close>

text \<open>
  A Python \<open>str\<close> is modelled as a \<open>string\<close> whose characters are the code points
  below 256. \<open>str.lower()\<close> maps the upper-case letters of that range (A to Z, and the
  Latin-1 capitals 0xC0 to 0xDE without the multiplication sign 0xD7) to the letter 32
  code points above, and leaves every other character alone.
\<close>

definition lower_char :: "char \<Rightarrow> char" where
  "lower_char c =
     (let n = (of_char c :: nat)
      in if (65 \<le> n \<and> n \<le> 90) \<or> (192 \<le> n \<and> n \<le> 222 \<and> n \<noteq> 215)
         then char_of (n + 32) else c)"

definition lower :: "string \<Rightarrow> string" where
  "lower s = map lower_char s"

text \<open>\<open>sub in s\<close> on strings: \<open>sub\<close> occurs as a contiguous slice of \<open>s\<close>.\<close>

fun contains :: "string \<Rightarrow> string \<Rightarrow> bool" where
  "contains sub [] = (sub = [])"
| "contains sub (c # cs) = (prefix sub (c # cs) \<or> contains sub cs)"

text \<open>\<open>s.count("\n")\<close> for the one-character pattern.\<close>

definition newline :: char where
  "newline = CHR 0x0A"



text \<open>The decimal rendering an f-string gives a non-negative \<open>int\<close>.\<close>

definition digit_char :: "nat \<Rightarrow> char" where
  "digit_char d = char_of (48 + d)"

fun str_of_nat :: "nat \<Rightarrow> string" where
  "str_of_nat n = (if n < 10 then [digit_char n] else str_of_nat (n div 10) @ [digit_char (n mod 10)])"

declare str_of_nat.simps [simp del]

section \<open>The activity log\<close>

text \<open>
  \<open>log_activity(message, icon)\<close> writes the line \<open>f"{icon} {message}"\<close>. The icons are
  emoji; a log line is kept as the pair of the icon and the message.
\<close>

datatype icon =
    IconClipboard | IconTarget | IconHourglass | IconMemo | IconCheck | IconSearch
  | IconWrench | IconChart | IconInbox | IconCross | IconBroom | IconParty | IconWarning

type_synonym activity = "icon \<times> string"

section \<open>explorer.py: the tool-result preview\<close>




section \<open>textual_ui.py: the display surface\<close>

datatype phase = Explore | Engineer | Crystallize

datatype ui_role = UiAgent | UiUser

text \<open>
  The state of \<open>OverkillApp\<close>. \<open>mounted\<close> says that the widgets are composed, so
  that \<open>query_one\<close> finds them (it raises \<open>NoMatches\<close> otherwise). Every
  \<open>asyncio.Event\<close> the app has created is an entry of \<open>events\<close> (is it set?), and an
  event is known by its position there; \<open>input_event\<close> is the attribute
  \<open>_input_event\<close>: \<open>None\<close> or the event in the slot.
\<close>

record app =
  mounted :: bool
  current_phase :: phase
  agent_name :: string
  status :: string
  activity_log :: "activity list"
  messages_log :: "(ui_role \<times> string) list"
  message_counter :: nat
  last_streaming_text :: string
  input_event :: "nat option"
  input_value :: string
  input_focused :: bool
  events :: "bool list"

definition update_phase :: "phase \<Rightarrow> app \<Rightarrow> app" where
  "update_phase p a = (if mounted a then a\<lparr>current_phase := p\<rparr> else a)"

definition update_agent_status :: "string \<Rightarrow> string \<Rightarrow> app \<Rightarrow> app" where
  "update_agent_status n s a = (if mounted a then a\<lparr>agent_name := n, status := s\<rparr> else a)"

definition log_activity :: "activity \<Rightarrow> app \<Rightarrow> app" where
  "log_activity e a = (if mounted a then a\<lparr>activity_log := activity_log a @ [e]\<rparr> else a)"

text \<open>
  \<open>add_message\<close> posts an \<open>AddMessageRequest\<close>, which \<open>handle_add_message\<close> serves;
  requests are served in the order posted, and the model serves each at once. Without
  the widgets the handler logs a \<open>UI Error\<close> line, which \<open>log_activity\<close> drops for
  the same reason.
\<close>

definition handle_add_message :: "ui_role \<Rightarrow> string \<Rightarrow> bool \<Rightarrow> app \<Rightarrow> app" where
  "handle_add_message r content streaming a =
     (if mounted a then
        (if streaming \<and> r = UiAgent \<and> last_streaming_text a \<noteq> []
         then a\<lparr>last_streaming_text := last_streaming_text a @ content\<rparr>
         else a\<lparr>messages_log := messages_log a @ [(r, content)],
                message_counter := message_counter a + 1\<rparr>)
      else log_activity (IconWarning, ''UI Error: NoMatches'') a)"

definition add_message :: "ui_role \<Rightarrow> string \<Rightarrow> app \<Rightarrow> app" where
  "add_message r content a = handle_add_message r content False a"

text \<open>
  \<open>prompt_user\<close> suspends at \<open>await self._input_event.wait()\<close>. It is modelled by
  its two halves: \<open>prompt_user_arm\<close> runs up to the await and returns the event the
  caller then waits on; \<open>prompt_user_resume\<close> runs from the await to the return, once
  that event is set. \<open>on_input_submitted\<close> is the handler of a submitted line.
\<close>

definition prompt_user_arm :: "app \<Rightarrow> nat \<times> app" where
  "prompt_user_arm a =
     (let ev = length (events a);
          a1 = a\<lparr>events := events a @ [False], input_event := Some ev,
                 input_value := [], last_streaming_text := []\<rparr>;
          a2 = (if mounted a1 then a1\<lparr>input_focused := True\<rparr> else a1)
      in (ev, a2))"

definition on_input_submitted :: "string \<Rightarrow> app \<Rightarrow> app" where
  "on_input_submitted v a =
     (case input_event a of
        None \<Rightarrow> a
      | Some ev \<Rightarrow> a\<lparr>input_value := v, events := (events a)[ev := True]\<rparr>)"

definition prompt_user_resume :: "app \<Rightarrow> string \<times> app" where
  "prompt_user_resume a = (input_value a, a\<lparr>input_event := None\<rparr>)"

text \<open>A call is outstanding: the slot holds an event that is not set.\<close>

definition outstanding :: "app \<Rightarrow> bool" where
  "outstanding a =
     (case input_event a of
        None \<Rightarrow> False
      | Some ev \<Rightarrow> ev < length (events a) \<and> \<not> events a ! ev)"

text \<open>
  \<open>TextualUI.shutdown\<close>. \<open>is_running\<close> and \<open>exit\<close> belong to the Textual library's
  \<open>App\<close>, whose state is the type \<open>'t\<close>; they are parameters.
\<close>

definition shutdown :: "('t \<Rightarrow> bool) \<Rightarrow> ('t \<Rightarrow> 't) \<Rightarrow> 't \<Rightarrow> 't" where
  "shutdown is_running exit t = (if is_running t then exit t else t)"

text \<open>The app as \<open>__init__\<close> leaves it, and as it is once its widgets are composed.\<close>

definition new_app :: app where
  "new_app =
     \<lparr>mounted = False, current_phase = Explore, agent_name = ''Idle'', status = ''Ready'',
      activity_log = [], messages_log = [], message_counter = 0, last_streaming_text = [],
      input_event = None, input_value = [], input_focused = False, events = []\<rparr>"

definition mounted_app :: app where
  "mounted_app = new_app\<lparr>mounted := True\<rparr>"

section \<open>engineer.py: the conversation\<close>

text \<open>What \<open>client.receive_response()\<close> yields, as far as the loop tells it apart.\<close>

datatype block = TextBlock string | OtherBlock

datatype message = AssistantMessage "block list" | ResultMessage | OtherMessage

datatype role = Assistant | User

text \<open>
  The state of one \<open>VibeEngineer.engineer()\<close> run: the object's attributes, the local
  \<open>conversation_history\<close>, the messages handed to \<open>client.query\<close> so far (\<open>sent\<close>),
  and the lines the human is going to submit while a prompt is armed
  (\<open>human_lines\<close>, the environment of an interactive run).
\<close>

record eng =
  repo_summary :: string
  feature_request :: string
  demo_mode :: bool
  demo_responses :: "string list"
  demo_response_index :: nat
  ui :: app
  conversation_history :: "(role \<times> string) list"
  sent :: "string list"
  human_lines :: "string list"

definition demo_responses_init :: "string list" where
  "demo_responses_init =
     [''I want to create a marketing landing page for Quivr, separate from the docs. Something modern that showcases what it does.'',
      ''The main message should be: turn any codebase into an intelligent Q&A system. Fast setup, no infrastructure needed.'',
      ''I want it clean and minimal - think Vercel or Linear style. Fast, with maybe one subtle animation on the hero.'',
      ''Main CTA should be 'Get Started' linking to docs, secondary CTA 'View on GitHub'. Target audience is Python devs doing RAG.'',
      ''done'']"

text \<open>\<open>VibeEngineer.__init__\<close>, with the surface and the human's lines of the run.\<close>

definition new_engineer :: "string \<Rightarrow> string \<Rightarrow> app \<Rightarrow> bool \<Rightarrow> string list \<Rightarrow> eng" where
  "new_engineer summary feature a demo lines =
     \<lparr>repo_summary = summary, feature_request = feature, demo_mode = demo,
      demo_responses = demo_responses_init, demo_response_index = 0, ui = a,
      conversation_history = [], sent = [], human_lines = lines\<rparr>"

text \<open>
  \<open>ui.prompt_user\<close> as the pipeline task sees it: arm, wait, resume. With a line to
  come the call returns it; with none the task stays suspended in the armed state, and
  the result is \<open>None\<close>.
\<close>

definition prompt_user :: "eng \<Rightarrow> string option \<times> eng" where
  "prompt_user st =
     (let (ev, a) = prompt_user_arm (ui st)
      in case human_lines st of
           [] \<Rightarrow> (None, st\<lparr>ui := a\<rparr>)
         | l # ls \<Rightarrow>
             (let (v, a') = prompt_user_resume (on_input_submitted l a)
              in (Some v, st\<lparr>ui := a', human_lines := ls\<rparr>)))"

text \<open>
  \<open>_get_user_input\<close>. (\<open>asyncio.sleep(1)\<close> on the first demo branch only delays the
  return.)
\<close>

definition get_user_input :: "eng \<Rightarrow> string option \<times> eng" where
  "get_user_input st =
     (if demo_mode st then
        (if demo_response_index st < length (demo_responses st)
         then (Some (demo_responses st ! demo_response_index st),
               st\<lparr>demo_response_index := demo_response_index st + 1\<rparr>)
         else (Some ''done'', st))
      else prompt_user st)"

text \<open>The state after \<open>k\<close> calls of \<open>_get_user_input\<close>, and the response of the next.\<close>

fun after_inputs :: "nat \<Rightarrow> eng \<Rightarrow> eng" where
  "after_inputs 0 st = st"
| "after_inputs (Suc k) st = after_inputs k (snd (get_user_input st))"

definition nth_input :: "nat \<Rightarrow> eng \<Rightarrow> string option" where
  "nth_input k st = fst (get_user_input (after_inputs k st))"

text \<open>The text of one drained response: the loop over \<open>receive_response()\<close>.\<close>

fun block_text :: "block \<Rightarrow> string" where
  "block_text (TextBlock t) = t"
| "block_text OtherBlock = []"

fun collect_text :: "message list \<Rightarrow> string" where
  "collect_text [] = []"
| "collect_text (AssistantMessage bs # ms) = concat (map block_text bs) @ collect_text ms"
| "collect_text (ResultMessage # ms) = []"
| "collect_text (OtherMessage # ms) = collect_text ms"

definition ready_to_generate :: "string \<Rightarrow> bool" where
  "ready_to_generate r = (contains ''SPEC_READY'' r \<or> contains ''ready to generate'' (lower r))"

definition affirmative :: "string \<Rightarrow> bool" where
  "affirmative confirm = (lower confirm \<in> set [''yes'', ''y'', ''done''])"

definition session_ending :: "string \<Rightarrow> bool" where
  "session_ending user_input = (lower user_input \<in> set [''done'', ''exit'', ''quit'', ''finish''])"

definition on_ui :: "(app \<Rightarrow> app) \<Rightarrow> eng \<Rightarrow> eng" where
  "on_ui f st = st\<lparr>ui := f (ui st)\<rparr>"

definition record_turn :: "role \<Rightarrow> string \<Rightarrow> eng \<Rightarrow> eng" where
  "record_turn r content st = st\<lparr>conversation_history := conversation_history st @ [(r, content)]\<rparr>"

definition client_query :: "string \<Rightarrow> eng \<Rightarrow> eng" where
  "client_query m st = st\<lparr>sent := sent st @ [m]\<rparr>"

text \<open>How one pass through the body of \<open>while True\<close> leaves it.\<close>

datatype control = Continue | Break | Suspend

text \<open>Lines 100 to 114: the human's turn.\<close>

definition human_turn :: "eng \<Rightarrow> control \<times> eng" where
  "human_turn st =
     (case get_user_input st of
        (None, st1) \<Rightarrow> (Suspend, st1)
      | (Some user_input, st1) \<Rightarrow>
          if user_input = [] then (Continue, st1)
          else if session_ending user_input then (Break, st1)
          else (Continue,
                client_query user_input
                  (on_ui (update_agent_status ''VibeEngineer'' ''Thinking...'')
                    (record_turn User user_input
                      (on_ui (add_message UiUser user_input) st1)))))"

text \<open>Line 94 and line 96: the question, and the answer shown in the conversation panel.\<close>

definition ask_ready :: "eng \<Rightarrow> eng" where
  "ask_ready st = on_ui (add_message UiAgent ''Ready to generate SPEC.md? (yes/no)'') st"

definition echo_confirm :: "string \<Rightarrow> eng \<Rightarrow> eng" where
  "echo_confirm confirm st = on_ui (add_message UiUser confirm) st"

text \<open>Lines 94 to 98: the confirmation asked when the agent says it is ready.\<close>

definition confirm_ready :: "eng \<Rightarrow> control \<times> eng" where
  "confirm_ready st =
     (case get_user_input (ask_ready st) of
        (None, st1) \<Rightarrow> (Suspend, st1)
      | (Some confirm, st1) \<Rightarrow>
          if affirmative confirm then (Break, echo_confirm confirm st1)
          else human_turn (echo_confirm confirm st1))"

text \<open>Line 70, line 80 and lines 84 to 87.\<close>

definition awaiting :: "eng \<Rightarrow> eng" where
  "awaiting st = on_ui (log_activity (IconHourglass, ''Waiting for Claude response...'')) st"

definition note_response :: "string \<Rightarrow> eng \<Rightarrow> eng" where
  "note_response r st =
     on_ui (log_activity (IconMemo, ''Response length: '' @ str_of_nat (length r))) st"

definition show_response :: "string \<Rightarrow> eng \<Rightarrow> eng" where
  "show_response r st = record_turn Assistant r (on_ui (add_message UiAgent r) st)"

text \<open>Lines 80 to 116: the body of the loop, from the drained messages on.\<close>

definition loop_body :: "message list \<Rightarrow> eng \<Rightarrow> control \<times> eng" where
  "loop_body msgs st =
     (let assistant_response = collect_text msgs;
          st1 = note_response assistant_response st
      in if assistant_response \<noteq> [] then
           (let st2 = show_response assistant_response st1
            in if ready_to_generate assistant_response then confirm_ready st2 else human_turn st2)
         else (Break, st1))"

text \<open>
  The state in which the pass through the body stands once a non-empty response is
  logged, shown and recorded: the state before line 89.
\<close>

definition after_response :: "message list \<Rightarrow> eng \<Rightarrow> eng" where
  "after_response msgs st =
     show_response (collect_text msgs) (note_response (collect_text msgs) (awaiting st))"

text \<open>
  The loop. Its first argument is what the agent is going to answer: one list of
  messages for each \<open>receive_response()\<close>. When the agent has no more to say the task
  stays suspended there.
\<close>

datatype outcome = Done | AwaitingAgent | AwaitingHuman

fun engineer_loop :: "message list list \<Rightarrow> eng \<Rightarrow> outcome \<times> eng" where
  "engineer_loop [] st = (AwaitingAgent, awaiting st)"
| "engineer_loop (msgs # rest) st =
     (case loop_body msgs (awaiting st) of
        (Continue, st1) \<Rightarrow> engineer_loop rest st1
      | (Break, st1) \<Rightarrow> (Done, st1)
      | (Suspend, st1) \<Rightarrow> (AwaitingHuman, st1))"

definition initial_query :: "eng \<Rightarrow> string" where
  "initial_query st =
     ''Repository Analysis:'' @ [newline] @ repo_summary st @ [newline, newline] @
     ''Feature Request: '' @ feature_request st @ [newline, newline] @
     ''Start the vibe engineering conversation. Ask your first question to understand what the user really wants.''"

definition engineer_start :: "eng \<Rightarrow> eng" where
  "engineer_start st =
     on_ui (update_agent_status ''VibeEngineer'' ''Thinking...'')
       (client_query (initial_query st)
         ((on_ui (log_activity (IconClipboard, ''Feature: '' @ take 50 (feature_request st) @ ''...''))
            (on_ui (log_activity (IconTarget, ''Vibe engineering session started''))
              (on_ui (update_agent_status ''VibeEngineer'' ''Starting session...'')
                (on_ui (update_phase Engineer) st))))
          \<lparr>conversation_history := []\<rparr>))"

definition engineer_finish :: "eng \<Rightarrow> eng" where
  "engineer_finish st =
     on_ui (log_activity (IconCheck, ''Engineering session complete''))
       (on_ui (update_agent_status ''VibeEngineer'' ''Session complete'') st)"

text \<open>\<open>engineer()\<close>: the outcome, and the state in which it returns or stays suspended.\<close>

definition engineer :: "message list list \<Rightarrow> eng \<Rightarrow> outcome \<times> eng" where
  "engineer agent st =
     (case engineer_loop agent (engineer_start st) of
        (Done, st1) \<Rightarrow> (Done, engineer_finish st1)
      | (AwaitingAgent, st1) \<Rightarrow> (AwaitingAgent, st1)
      | (AwaitingHuman, st1) \<Rightarrow> (AwaitingHuman, st1))"

section \<open>main.py: the pipeline task\<close>

text \<open>
  What \<open>run_pipeline\<close> touches outside the program: the paths that exist in the file
  system and the surface.
\<close>

record pworld =
  paths :: "string set"
  surface :: app

text \<open>
  \<open>Exception\<close> stands for the exceptions that \<open>except Exception\<close> catches, with their
  message; \<open>BaseException\<close> for the others (a cancellation, a keyboard interrupt).
\<close>

datatype exn = Exception string | BaseException string

datatype git_result = CloneOk | CalledProcessError string

text \<open>
  The answers of the system during one run: the directory \<open>tempfile.mkdtemp\<close> makes,
  how \<open>git clone\<close> ends, and what \<open>Path(...).resolve()\<close> gives.
\<close>

record sys_env =
  mkdtemp :: string
  git_clone :: git_result
  resolve :: "string \<Rightarrow> string"

record args =
  repo :: string
  feature :: string
  output_opt :: string
  demo :: bool

text \<open>
  The three phases are the agents' calls; each returns a value or raises, and may
  change the file system and the surface on the way. They are parameters of the
  pipeline.
\<close>

record ('an, 'se) phases =
  explore_phase :: "string \<Rightarrow> pworld \<Rightarrow> (exn + 'an) \<times> pworld"
  engineer_phase :: "'an \<Rightarrow> string \<Rightarrow> bool \<Rightarrow> pworld \<Rightarrow> (exn + 'se) \<times> pworld"
  crystallize_phase :: "'se \<Rightarrow> string \<Rightarrow> pworld \<Rightarrow> (exn + string) \<times> pworld"

definition ui_log :: "activity \<Rightarrow> pworld \<Rightarrow> pworld" where
  "ui_log e w = w\<lparr>surface := log_activity e (surface w)\<rparr>"

text \<open>\<open>shutil.rmtree(p, ignore_errors=True)\<close>, taken to succeed: \<open>p\<close> and all below it go.\<close>

definition rmtree :: "string \<Rightarrow> pworld \<Rightarrow> pworld" where
  "rmtree p w = w\<lparr>paths := Set.filter (\<lambda>q. q \<noteq> p \<and> \<not> prefix (p @ ''/'') q) (paths w)\<rparr>"

definition clone_repo :: "sys_env \<Rightarrow> string \<Rightarrow> pworld \<Rightarrow> (exn + string) \<times> pworld" where
  "clone_repo env repo_url w =
     (let temp_dir = mkdtemp env;
          w1 = w\<lparr>paths := insert temp_dir (paths w)\<rparr>
      in case git_clone env of
           CloneOk \<Rightarrow> (Inr temp_dir, w1)
         | CalledProcessError stderr \<Rightarrow> (Inl (Exception (''Error cloning repo: '' @ stderr)), w1))"

definition is_url :: "string \<Rightarrow> bool" where
  "is_url r = (prefix ''http://'' r \<or> prefix ''https://'' r \<or> prefix ''git@'' r)"

text \<open>
  The \<open>try\<close> block in two parts. Each returns how the block ends (\<open>Inl\<close>: it raises;
  \<open>Inr\<close>: it runs to its end or returns), and the values of \<open>cleanup\<close> and \<open>repo_path\<close>
  (\<open>None\<close> while unassigned) at that moment.
\<close>

definition run_phases ::
  "sys_env \<Rightarrow> ('an, 'se) phases \<Rightarrow> args \<Rightarrow> string \<Rightarrow> bool \<Rightarrow> pworld
     \<Rightarrow> (exn + unit) \<times> bool \<times> string option \<times> pworld" where
  "run_phases env ph a repo_path cleanup w =
     (case explore_phase ph repo_path w of
        (Inl e, w1) \<Rightarrow> (Inl e, cleanup, Some repo_path, w1)
      | (Inr analysis, w1) \<Rightarrow>
          (case engineer_phase ph analysis (feature a) (demo a) w1 of
             (Inl e, w2) \<Rightarrow> (Inl e, cleanup, Some repo_path, w2)
           | (Inr session, w2) \<Rightarrow>
               (case crystallize_phase ph session (resolve env (output_opt a)) w2 of
                  (Inl e, w3) \<Rightarrow> (Inl e, cleanup, Some repo_path, w3)
                | (Inr spec_path, w3) \<Rightarrow>
                    (Inr (), cleanup, Some repo_path,
                     ui_log (IconCheck, ''Complete! Press Ctrl+C to exit.'')
                       (ui_log (IconParty, ''SPEC.md generated at: '' @ spec_path) w3)))))"

definition try_block ::
  "sys_env \<Rightarrow> ('an, 'se) phases \<Rightarrow> args \<Rightarrow> pworld
     \<Rightarrow> (exn + unit) \<times> bool \<times> string option \<times> pworld" where
  "try_block env ph a w =
     (if is_url (repo a) then
        (case clone_repo env (repo a) (ui_log (IconInbox, ''Cloning '' @ repo a @ ''...'') w) of
           (Inl e, w1) \<Rightarrow> (Inl e, False, None, w1)
         | (Inr repo_path, w1) \<Rightarrow>
             run_phases env ph a repo_path True (ui_log (IconCheck, ''Cloned to '' @ repo_path) w1))
      else
        (let repo_path = resolve env (repo a)
         in if repo_path \<notin> paths w
            then (Inr (), False, Some repo_path,
                  ui_log (IconCross, ''Error: Path does not exist: '' @ repo_path) w)
            else run_phases env ph a repo_path False w))"

text \<open>
  \<open>run_pipeline\<close>: the exception that leaves the task, if one does, and the world
  after the \<open>finally\<close> block.
\<close>

definition run_pipeline ::
  "sys_env \<Rightarrow> ('an, 'se) phases \<Rightarrow> args \<Rightarrow> pworld \<Rightarrow> exn option \<times> pworld" where
  "run_pipeline env ph a w =
     (case try_block env ph a w of
        (r, cleanup, repo_path, w1) \<Rightarrow>
          (let (raised, w2) =
                 (case r of
                    Inl (Exception m) \<Rightarrow> (None, ui_log (IconCross, ''Error: '' @ m) w1)
                  | Inl (BaseException m) \<Rightarrow> (Some (BaseException m), w1)
                  | Inr u \<Rightarrow> (None, w1))
           in case repo_path of
                Some p \<Rightarrow>
                  if cleanup
                  then (raised, rmtree p (ui_log (IconBroom, ''Cleaning up '' @ p @ ''...'') w2))
                  else (raised, w2)
              | None \<Rightarrow> (raised, w2)))"

text \<open>
  Modelled from the spec: Textual's \<open>App\<close>, which is not among the sources: its
  \<open>is_running\<close>, its \<open>exit\<close> and the surface loop. The spec has \<open>shutdown()\<close>
  request the surface loop to end, and has the loop run until the surface is closed.
  \<open>app_exit\<close> records the request and posts it to the loop as a message, one for each
  call. The loop of a running app serves the pending messages in order and closes at
  the first exit request; what is pending then is never served. \<open>settle\<close> is the
  state the surface comes to once its loop has served what is pending.
\<close>

datatype pump_message = ExitApp | OtherPumpMessage

record textual_app =
  running :: bool
  exit_requested :: bool
  pending :: "pump_message list"

definition app_exit :: "textual_app \<Rightarrow> textual_app" where
  "app_exit t = t\<lparr>exit_requested := True, pending := pending t @ [ExitApp]\<rparr>"

fun serve :: "pump_message list \<Rightarrow> textual_app \<Rightarrow> textual_app" where
  "serve [] t = t\<lparr>pending := []\<rparr>"
| "serve (ExitApp # ms) t = t\<lparr>running := False, pending := []\<rparr>"
| "serve (OtherPumpMessage # ms) t = serve ms t"

definition settle :: "textual_app \<Rightarrow> textual_app" where
  "settle t = (if running t then serve (pending t) t else t)"


text \<open>A run to try the pipeline on: phase number \<open>k\<close> raises (none does for other \<open>k\<close>).\<close>

definition failing_at :: "nat \<Rightarrow> (unit, unit) phases" where
  "failing_at k =
     \<lparr>explore_phase = (\<lambda>p w. (if k = 1 then Inl (Exception ''explore failed'') else Inr (), w)),
      engineer_phase = (\<lambda>an f d w. (if k = 2 then Inl (Exception ''engineer failed'') else Inr (), w)),
      crystallize_phase = (\<lambda>se p w. (if k = 3 then Inl (BaseException ''cancelled'') else Inr p, w))\<rparr>"

definition clone_env :: sys_env where
  "clone_env = \<lparr>mkdtemp = ''/tmp/overkill_a1'', git_clone = CloneOk, resolve = (\<lambda>p. p)\<rparr>"

definition clone_args :: args where
  "clone_args = \<lparr>repo = ''https://github.com/user/repo'', feature = ''add a health check endpoint'',
                 output_opt = ''SPEC.md'', demo = False\<rparr>"

text \<open>Two replies of the agent to run the loop on: a question, and a reply with the marker.\<close>

definition question_reply :: "message list" where
  "question_reply = [AssistantMessage [TextBlock ''What do you want?''], ResultMessage]"

definition ready_reply :: "message list" where
  "ready_reply =
     [AssistantMessage [TextBlock ''I have enough. '', OtherBlock, TextBlock ''SPEC_READY''],
      ResultMessage]"


section \<open>The tool-result preview\<close>







section \<open>Scripted input\<close>

lemma get_user_input_demo:
  "demo_mode st \<Longrightarrow> get_user_input st =
     (if demo_response_index st < length (demo_responses st)
      then (Some (demo_responses st ! demo_response_index st),
            st\<lparr>demo_response_index := demo_response_index st + 1\<rparr>)
      else (Some ''done'', st))"
  by (simp add: get_user_input_def)

lemma after_inputs_demo:
  "demo_mode st \<Longrightarrow>
   after_inputs k st = st\<lparr>demo_response_index :=
       min (demo_response_index st + k) (max (demo_response_index st) (length (demo_responses st)))\<rparr>"
proof (induction k arbitrary: st)
  case 0
  then show ?case by simp
next
  case (Suc k)
  show ?case
  proof (cases "demo_response_index st < length (demo_responses st)")
    case True
    with Suc.prems show ?thesis
      by (simp add: get_user_input_demo Suc.IH min_def max_def)
  next
    case False
    with Suc.prems show ?thesis
      by (simp add: get_user_input_demo Suc.IH min_def max_def)
  qed
qed

text \<open>
  C2, as the code has it. In demo mode, counting the calls of \<open>_get_user_input\<close> from
  a cursor at 0, call number \<open>k\<close> returns entry \<open>k\<close> of the canned list while \<open>k\<close> is
  less than its length, and the token \<open>done\<close> on every later call, whatever the length
  of the list.
\<close>

theorem scripted_input_then_done:
  assumes "demo_mode st" and "demo_response_index st = 0"
  shows "nth_input k st =
     Some (if k < length (demo_responses st) then demo_responses st ! k else ''done'')"
  using assms by (simp add: nth_input_def after_inputs_demo get_user_input_demo min_def)

theorem scripted_input_then_done_witness:
  "nth_input 2 (new_engineer [] [] new_app True []) = Some (demo_responses_init ! 2) \<and>
   nth_input 7 (new_engineer [] [] new_app True []) = Some ''done''"
  using scripted_input_then_done [of "new_engineer [] [] new_app True []" 2]
    scripted_input_then_done [of "new_engineer [] [] new_app True []" 7]
  by (simp add: new_engineer_def demo_responses_init_def)

text \<open>
  C2, as the spec words it, fails: once the five canned responses are used up, the
  next call does not return \<open>finish the session\<close>.
\<close>

theorem scripted_exhaustion_token_counterexample:
  "nth_input 5 (new_engineer [] [] new_app True []) \<noteq> Some ''finish the session''"
  by (simp add: nth_input_def after_inputs_demo get_user_input_demo new_engineer_def
      demo_responses_init_def)

text \<open>
  C10. In demo mode with the canned list of \<open>__init__\<close>, the response of
  \<open>_get_user_input\<close> is a function of the cursor alone: two states with the same
  cursor get the same response, whatever their surfaces and whatever else they hold.
  The call leaves the surface as it was and takes no line from the human, so
  \<open>prompt_user\<close> (which always creates an event) has not run. After \<open>k\<close> requests of
  a new engineer the cursor is \<open>min k 5\<close>.
\<close>

theorem demo_input_deterministic:
  assumes "demo_mode s1" and "demo_mode s2"
    and "demo_responses s1 = demo_responses_init" and "demo_responses s2 = demo_responses_init"
    and "demo_response_index s1 = demo_response_index s2"
  shows "fst (get_user_input s1) = fst (get_user_input s2) \<and>
         fst (get_user_input s1) =
           Some (if demo_response_index s1 < 5 then demo_responses_init ! demo_response_index s1
                 else ''done'') \<and>
         ui (snd (get_user_input s1)) = ui s1 \<and> ui (snd (get_user_input s2)) = ui s2 \<and>
         human_lines (snd (get_user_input s1)) = human_lines s1 \<and>
         human_lines (snd (get_user_input s2)) = human_lines s2 \<and>
         demo_response_index (after_inputs k (new_engineer sm ft a True ls)) = min k 5"
proof -
  have len: "length demo_responses_init = 5"
    by (simp add: demo_responses_init_def)
  have "demo_response_index (after_inputs k (new_engineer sm ft a True ls)) = min k 5"
    by (simp add: after_inputs_demo new_engineer_def len)
  with assms len show ?thesis
    by (simp add: get_user_input_demo)
qed

theorem demo_input_deterministic_witness:
  "fst (get_user_input (new_engineer ''s'' ''f'' new_app True [])) =
   fst (get_user_input (new_engineer ''t'' ''g'' mounted_app True [''typed'']))"
  using demo_input_deterministic [of "new_engineer ''s'' ''f'' new_app True []"
      "new_engineer ''t'' ''g'' mounted_app True [''typed'']"]
  by (simp add: new_engineer_def)

section \<open>The input slot of the surface\<close>

text \<open>
  C3, as the spec words it, fails. On the mounted app a first \<open>prompt_user\<close> arms the
  slot with event 0 and is outstanding; a second call is not refused: it creates
  event 1 and puts it in the slot.
\<close>

theorem second_prompt_not_refused_counterexample:
  "outstanding (snd (prompt_user_arm mounted_app)) \<and>
   input_event (snd (prompt_user_arm mounted_app)) = Some 0 \<and>
   prompt_user_arm (snd (prompt_user_arm mounted_app)) =
     (1, mounted_app\<lparr>input_event := Some 1, input_focused := True, events := [False, False]\<rparr>)"
  by (simp add: prompt_user_arm_def outstanding_def mounted_app_def new_app_def Let_def)

text \<open>
  C3, as the code has it. In every state of the surface where a \<open>prompt_user\<close> call is
  outstanding on the event \<open>ev\<close>, a second call goes through: it creates a new event,
  other than \<open>ev\<close>, puts it in the slot in place of \<open>ev\<close>, clears the stored input and
  is outstanding itself. A line submitted then sets the new event only: \<open>ev\<close>, on
  which the first caller waits, stays unset.
\<close>

theorem second_prompt_replaces_wait:
  assumes "outstanding a" and "input_event a = Some ev"
  shows "fst (prompt_user_arm a) = length (events a) \<and>
         fst (prompt_user_arm a) \<noteq> ev \<and>
         input_event (snd (prompt_user_arm a)) = Some (length (events a)) \<and>
         events (snd (prompt_user_arm a)) = events a @ [False] \<and>
         input_value (snd (prompt_user_arm a)) = [] \<and>
         outstanding (snd (prompt_user_arm a)) \<and>
         \<not> events (on_input_submitted v (snd (prompt_user_arm a))) ! ev \<and>
         events (on_input_submitted v (snd (prompt_user_arm a))) ! length (events a)"
  using assms
  by (auto simp: prompt_user_arm_def outstanding_def on_input_submitted_def Let_def nth_append)

theorem second_prompt_replaces_wait_witness:
  "fst (prompt_user_arm (snd (prompt_user_arm mounted_app))) = 1 \<and>
   input_event (snd (prompt_user_arm (snd (prompt_user_arm mounted_app)))) = Some 1 \<and>
   events (on_input_submitted ''hello'' (snd (prompt_user_arm (snd (prompt_user_arm mounted_app)))))
     = [False, True]"
  using second_prompt_replaces_wait [of "snd (prompt_user_arm mounted_app)" 0 "''hello''"]
  by (simp add: prompt_user_arm_def outstanding_def on_input_submitted_def mounted_app_def
      new_app_def Let_def)

section \<open>Shutting the surface down\<close>

lemma serve_exit: "serve (p @ ExitApp # q) t = t\<lparr>running := False, pending := []\<rparr>"
proof (induction p)
  case Nil
  show ?case by simp
next
  case (Cons m p)
  then show ?case by (cases m) simp_all
qed

lemma settle_exit:
  "running t \<Longrightarrow> settle (app_exit t) = t\<lparr>running := False, exit_requested := True, pending := []\<rparr>"
  using serve_exit [of "pending t" "[]" "t\<lparr>exit_requested := True, pending := pending t @ [ExitApp]\<rparr>"]
  by (simp add: settle_def app_exit_def)

lemma settle_exit_twice:
  "running t \<Longrightarrow> settle (app_exit (app_exit t)) = t\<lparr>running := False, exit_requested := True, pending := []\<rparr>"
  using serve_exit [of "pending t" "[ExitApp]"
      "t\<lparr>exit_requested := True, pending := pending t @ [ExitApp, ExitApp]\<rparr>"]
  by (simp add: settle_def app_exit_def)

text \<open>
  C8. Calling \<open>shutdown\<close> twice leaves the surface in the terminal state that calling
  it once leaves it in, for every state of the surface, whether the loop serves what
  is pending only after both calls or also between them. On an app that is not
  running both calls do nothing. On a running app each call posts an exit request of
  its own, so the states right after one call and after two differ; the loop closes at
  the first request and the second is never served.
\<close>

theorem shutdown_idempotent:
  "settle (shutdown running app_exit (shutdown running app_exit t)) =
     settle (shutdown running app_exit t) \<and>
   settle (shutdown running app_exit (settle (shutdown running app_exit t))) =
     settle (shutdown running app_exit t) \<and>
   (running t \<longrightarrow>
      shutdown running app_exit (shutdown running app_exit t) \<noteq> shutdown running app_exit t)"
proof (cases "running t")
  case True
  let ?u = "t\<lparr>running := False, exit_requested := True, pending := []\<rparr>"
  have r: "running (app_exit t)"
    using True by (simp add: app_exit_def)
  have once: "shutdown running app_exit t = app_exit t"
    using True by (simp add: shutdown_def)
  have twice: "shutdown running app_exit (shutdown running app_exit t) = app_exit (app_exit t)"
    using r once by (simp add: shutdown_def)
  have s1: "settle (app_exit t) = ?u"
    using True by (rule settle_exit)
  have s2: "settle (app_exit (app_exit t)) = ?u"
    using True by (rule settle_exit_twice)
  have s3: "settle (shutdown running app_exit ?u) = ?u"
    by (simp add: shutdown_def settle_def)
  have n: "app_exit (app_exit t) \<noteq> app_exit t"
  proof
    assume "app_exit (app_exit t) = app_exit t"
    then have "pending (app_exit (app_exit t)) = pending (app_exit t)"
      by simp
    then show False
      by (simp add: app_exit_def)
  qed
  from once twice s1 s2 s3 n show ?thesis
    by simp
next
  case False
  then show ?thesis
    by (simp add: shutdown_def settle_def)
qed

theorem shutdown_idempotent_witness:
  "settle (shutdown running app_exit (shutdown running app_exit
      \<lparr>running = True, exit_requested = False, pending = [OtherPumpMessage]\<rparr>)) =
     \<lparr>running = False, exit_requested = True, pending = []\<rparr> \<and>
   settle (shutdown running app_exit \<lparr>running = True, exit_requested = False, pending = [OtherPumpMessage]\<rparr>) =
     \<lparr>running = False, exit_requested = True, pending = []\<rparr> \<and>
   pending (shutdown running app_exit (shutdown running app_exit
      \<lparr>running = True, exit_requested = False, pending = [OtherPumpMessage]\<rparr>)) = [OtherPumpMessage, ExitApp, ExitApp]"
  using shutdown_idempotent [of "\<lparr>running = True, exit_requested = False, pending = [OtherPumpMessage]\<rparr>"]
  by (simp add: shutdown_def settle_def app_exit_def)

section \<open>Cleaning up the cloned repository\<close>

lemma rmtree_removes: "p \<notin> paths (rmtree p w)"
  by (simp add: rmtree_def)

lemma run_phases_keeps:
  "run_phases env ph a p c w = (r, c', rp, w') \<Longrightarrow> c' = c \<and> rp = Some p"
  by (auto simp: run_phases_def split: prod.splits sum.splits)

text \<open>
  C7. When the repository argument is a URL and the clone succeeds, the temporary
  directory does not exist once \<open>run_pipeline\<close> is over, whatever the three phases do:
  each may return, raise an exception that the task catches, or raise one that leaves
  the task.
\<close>

theorem staged_directory_removed:
  assumes "is_url (repo a)" and "git_clone env = CloneOk"
  shows "mkdtemp env \<notin> paths (snd (run_pipeline env ph a w))"
proof -
  obtain r c rp w1 where t: "try_block env ph a w = (r, c, rp, w1)"
    by (cases "try_block env ph a w") auto
  with assms have "c = True \<and> rp = Some (mkdtemp env)"
    by (auto simp: try_block_def clone_repo_def Let_def dest: run_phases_keeps)
  with t show ?thesis
    by (auto simp: run_pipeline_def rmtree_removes split: prod.splits sum.splits exn.splits)
qed

theorem staged_directory_removed_witness:
  "''/tmp/overkill_a1'' \<notin> paths (snd (run_pipeline clone_env (failing_at 0) clone_args \<lparr>paths = {}, surface = mounted_app\<rparr>)) \<and>
   ''/tmp/overkill_a1'' \<notin> paths (snd (run_pipeline clone_env (failing_at 1) clone_args \<lparr>paths = {}, surface = mounted_app\<rparr>)) \<and>
   ''/tmp/overkill_a1'' \<notin> paths (snd (run_pipeline clone_env (failing_at 2) clone_args \<lparr>paths = {}, surface = mounted_app\<rparr>)) \<and>
   ''/tmp/overkill_a1'' \<notin> paths (snd (run_pipeline clone_env (failing_at 3) clone_args \<lparr>paths = {}, surface = mounted_app\<rparr>))"
  using staged_directory_removed [of clone_args clone_env "failing_at 0" "\<lparr>paths = {}, surface = mounted_app\<rparr>"]
    staged_directory_removed [of clone_args clone_env "failing_at 1" "\<lparr>paths = {}, surface = mounted_app\<rparr>"]
    staged_directory_removed [of clone_args clone_env "failing_at 2" "\<lparr>paths = {}, surface = mounted_app\<rparr>"]
    staged_directory_removed [of clone_args clone_env "failing_at 3" "\<lparr>paths = {}, surface = mounted_app\<rparr>"]
  by (simp add: clone_args_def clone_env_def is_url_def)

section \<open>The conversation loop\<close>

text \<open>What asking for input leaves alone, and where a pass through the body goes.\<close>

lemma ready_nonempty: "ready_to_generate r \<Longrightarrow> r \<noteq> []"
  by (auto simp: ready_to_generate_def lower_def)

lemma prompt_user_keeps:
  "prompt_user st = (x, st1) \<Longrightarrow>
     conversation_history st1 = conversation_history st \<and> sent st1 = sent st \<and>
     mounted (ui st1) = mounted (ui st) \<and> messages_log (ui st1) = messages_log (ui st)"
  by (auto simp: prompt_user_def prompt_user_arm_def prompt_user_resume_def
      on_input_submitted_def Let_def split: list.splits prod.splits option.splits if_splits)

lemma get_user_input_keeps:
  "get_user_input st = (x, st1) \<Longrightarrow>
     conversation_history st1 = conversation_history st \<and> sent st1 = sent st \<and>
     mounted (ui st1) = mounted (ui st) \<and> messages_log (ui st1) = messages_log (ui st)"
  by (cases "demo_mode st") (auto simp: get_user_input_def dest: prompt_user_keeps split: if_splits)


lemma echo_confirm_history [simp]:
  "conversation_history (echo_confirm c s) = conversation_history s"
  by (simp add: echo_confirm_def on_ui_def)

lemma ask_ready_history [simp]:
  "conversation_history (ask_ready s) = conversation_history s"
  by (simp add: ask_ready_def on_ui_def)

lemma plain_response_turn:
  "collect_text msgs \<noteq> [] \<Longrightarrow> \<not> ready_to_generate (collect_text msgs) \<Longrightarrow>
   loop_body msgs (awaiting st) = human_turn (after_response msgs st)"
  by (simp add: loop_body_def after_response_def Let_def)

lemma ready_response_confirm:
  "ready_to_generate (collect_text msgs) \<Longrightarrow>
   loop_body msgs (awaiting st) = confirm_ready (after_response msgs st)"
  by (simp add: loop_body_def after_response_def Let_def ready_nonempty)


lemma confirm_ready_eq:
  "get_user_input (ask_ready s) = (Some c, s1) \<Longrightarrow>
   confirm_ready s =
     (if affirmative c then (Break, echo_confirm c s1) else human_turn (echo_confirm c s1))"
  by (simp add: confirm_ready_def)





text \<open>
  C4. When the response of a pass contains the marker \<open>SPEC_READY\<close> or, in lower
  case, the phrase \<open>ready to generate\<close>, the pass asks for a confirmation through
  \<open>_get_user_input\<close>. Once the confirmation is answered: an affirmative answer
  (\<open>yes\<close>, \<open>y\<close> or \<open>done\<close>, in any case) ends the loop, whatever the agent would say
  next; any other answer takes the pass on to the human's turn, the one a response
  without the marker leads to (\<open>plain_response_turn\<close>), so the loop goes on.
\<close>

theorem ready_response_asks_confirmation:
  assumes "ready_to_generate (collect_text msgs)"
    and "get_user_input (ask_ready (after_response msgs st)) = (Some confirm, st1)"
  shows "loop_body msgs (awaiting st) = confirm_ready (after_response msgs st) \<and>
         (affirmative confirm \<longrightarrow>
            engineer_loop (msgs # rest) st = (Done, echo_confirm confirm st1)) \<and>
         (\<not> affirmative confirm \<longrightarrow>
            loop_body msgs (awaiting st) = human_turn (echo_confirm confirm st1))"
  using assms by (simp add: ready_response_confirm confirm_ready_def)

theorem ready_response_asks_confirmation_witness:
  "loop_body ready_reply (awaiting (new_engineer ''summary'' ''feat'' mounted_app False [''no'', ''more detail''])) =
     human_turn (echo_confirm ''no''
       (snd (get_user_input (ask_ready (after_response ready_reply
          (new_engineer ''summary'' ''feat'' mounted_app False [''no'', ''more detail'']))))))
   \<and> fst (engineer_loop [ready_reply, question_reply]
        (new_engineer ''summary'' ''feat'' mounted_app False [''no'', ''more detail''])) = AwaitingHuman
   \<and> conversation_history (snd (engineer_loop [ready_reply, question_reply]
        (new_engineer ''summary'' ''feat'' mounted_app False [''no'', ''more detail'']))) =
       [(Assistant, ''I have enough. SPEC_READY''), (User, ''more detail''),
        (Assistant, ''What do you want?'')]"
proof -
  let ?s = "new_engineer ''summary'' ''feat'' mounted_app False [''no'', ''more detail'']"
  let ?a = "ask_ready (after_response ready_reply ?s)"
  have r: "ready_to_generate (collect_text ready_reply)"
    by code_simp
  have "fst (get_user_input ?a) = Some ''no''"
    by code_simp
  then have g: "get_user_input ?a = (Some ''no'', snd (get_user_input ?a))"
    by (metis prod.collapse)
  have n: "\<not> affirmative ''no''"
    by code_simp
  have o: "fst (engineer_loop [ready_reply, question_reply] ?s) = AwaitingHuman"
    by code_simp
  have h: "conversation_history (snd (engineer_loop [ready_reply, question_reply] ?s)) =
       [(Assistant, ''I have enough. SPEC_READY''), (User, ''more detail''),
        (Assistant, ''What do you want?'')]"
    by code_simp
  from ready_response_asks_confirmation [OF r g] n o h show ?thesis
    by blast
qed

lemma after_response_keeps:
  "conversation_history (after_response msgs st0) =
     conversation_history st0 @ [(Assistant, collect_text msgs)] \<and>
   sent (after_response msgs st0) = sent st0"
  by (simp add: after_response_def show_response_def note_response_def awaiting_def
      record_turn_def on_ui_def)

text \<open>
  C6, as the spec words it, fails: it holds of the input read at the human's turn and
  not of every human input. The token \<open>exit\<close> given in answer to the readiness
  confirmation does not end the loop: the next line is asked for, recorded and sent
  to the agent.
\<close>

theorem ending_token_at_confirmation_counterexample:
  "session_ending ''exit'' \<and>
   fst (engineer_loop [ready_reply]
          (new_engineer ''summary'' ''feat'' mounted_app False [''exit'', ''hello''])) = AwaitingAgent \<and>
   conversation_history (snd (engineer_loop [ready_reply]
          (new_engineer ''summary'' ''feat'' mounted_app False [''exit'', ''hello'']))) =
     [(Assistant, ''I have enough. SPEC_READY''), (User, ''hello'')] \<and>
   sent (snd (engineer_loop [ready_reply]
          (new_engineer ''summary'' ''feat'' mounted_app False [''exit'', ''hello'']))) = [''hello''] \<and>
   human_lines (snd (engineer_loop [ready_reply]
          (new_engineer ''summary'' ''feat'' mounted_app False [''exit'', ''hello'']))) = []"
  by code_simp

text \<open>
  C6, as the code has it. A pass through the body comes to the human's turn either
  straight after a response without the readiness marker, or after a confirmation that
  was not answered in the affirmative. When the input given at that turn is, in lower case, one of
  \<open>done\<close>, \<open>exit\<close>, \<open>quit\<close>, \<open>finish\<close>, the loop ends at once in \<open>Done\<close>:
  nothing of what the agent would say next is read, the transcript has gained the
  response of the pass and not the input, and nothing was sent to the agent.
\<close>

theorem session_ending_input_ends_loop:
  assumes "(collect_text msgs \<noteq> [] \<and> \<not> ready_to_generate (collect_text msgs) \<and>
              st = after_response msgs st0) \<or>
           (ready_to_generate (collect_text msgs) \<and>
              get_user_input (ask_ready (after_response msgs st0)) = (Some confirm, st2) \<and>
              \<not> affirmative confirm \<and> st = echo_confirm confirm st2)"
    and "get_user_input st = (Some user_input, st1)"
    and "session_ending user_input"
  shows "engineer_loop (msgs # rest) st0 = (Done, st1) \<and>
         conversation_history st1 = conversation_history st0 @ [(Assistant, collect_text msgs)] \<and>
         sent st1 = sent st0"
proof -
  have "user_input \<noteq> []"
    using assms(3) by (auto simp: session_ending_def lower_def)
  with assms(2,3) have brk: "human_turn st = (Break, st1)"
    by (simp add: human_turn_def)
  from assms(1)
  have body: "loop_body msgs (awaiting st0) = human_turn st"
    and hist: "conversation_history st = conversation_history st0 @ [(Assistant, collect_text msgs)]"
    and snt: "sent st = sent st0"
  proof -
    from assms(1) show "loop_body msgs (awaiting st0) = human_turn st"
      by (auto simp: plain_response_turn ready_response_confirm confirm_ready_eq)
    from assms(1) show "conversation_history st = conversation_history st0 @ [(Assistant, collect_text msgs)]"
      using get_user_input_keeps [of "ask_ready (after_response msgs st0)" "Some confirm" st2]
      by (auto simp: after_response_keeps)
    from assms(1) show "sent st = sent st0"
      using get_user_input_keeps [of "ask_ready (after_response msgs st0)" "Some confirm" st2]
      by (auto simp: after_response_keeps ask_ready_def echo_confirm_def on_ui_def)
  qed
  with brk get_user_input_keeps [OF assms(2)] show ?thesis
    by simp
qed

theorem session_ending_input_ends_loop_witness:
  "engineer_loop [question_reply, question_reply]
        (new_engineer ''summary'' ''feat'' mounted_app False [''QUIT'', ''more'']) =
     (Done, snd (get_user_input (after_response question_reply
        (new_engineer ''summary'' ''feat'' mounted_app False [''QUIT'', ''more''])))) \<and>
   conversation_history (snd (get_user_input (after_response question_reply
        (new_engineer ''summary'' ''feat'' mounted_app False [''QUIT'', ''more''])))) =
     [(Assistant, ''What do you want?'')] \<and>
   sent (snd (get_user_input (after_response question_reply
        (new_engineer ''summary'' ''feat'' mounted_app False [''QUIT'', ''more''])))) = []"
proof -
  let ?s = "new_engineer ''summary'' ''feat'' mounted_app False [''QUIT'', ''more'']"
  let ?a = "after_response question_reply ?s"
  have "fst (get_user_input ?a) = Some ''QUIT''"
    by code_simp
  then have g: "get_user_input ?a = (Some ''QUIT'', snd (get_user_input ?a))"
    by (metis prod.collapse)
  have e: "session_ending ''QUIT''"
    by code_simp
  have t: "collect_text question_reply = ''What do you want?''"
    by code_simp
  have "collect_text question_reply \<noteq> []" and "\<not> ready_to_generate (collect_text question_reply)"
    by code_simp+
  then have b: "(collect_text question_reply \<noteq> [] \<and> \<not> ready_to_generate (collect_text question_reply) \<and>
              ?a = after_response question_reply ?s) \<or>
           (ready_to_generate (collect_text question_reply) \<and>
              get_user_input (ask_ready (after_response question_reply ?s)) = (Some [], ?s) \<and>
              \<not> affirmative [] \<and> ?a = echo_confirm [] ?s)"
    by simp
  have c: "conversation_history ?s = []" and d: "sent ?s = []"
    by (simp_all add: new_engineer_def)
  from session_ending_input_ends_loop [OF b g e, of "[question_reply]"] t c d show ?thesis
    by simp
qed



text \<open>
  C1 does not hold of the code. An empty input at the human's turn makes the body
  \<open>continue\<close>, which leads back to the top of the loop: the next thing the task does
  is to wait for a response of the agent, to which nothing was sent.
\<close>

lemma empty_input_continues:
  assumes "get_user_input st = (Some [], st1)"
    and "loop_body msgs (awaiting st0) = human_turn st"
  shows "engineer_loop (msgs # rest) st0 = engineer_loop rest st1 \<and>
         conversation_history st1 = conversation_history st \<and> sent st1 = sent st"
  using assms get_user_input_keeps [OF assms(1)] by (simp add: human_turn_def)

text \<open>
  C1 at a concrete run: the agent asks a question and the human submits an empty line,
  with a second line ready. With no further word of the agent the task waits for the
  agent, one message sent in all and its answer already read; with an empty response
  next the loop ends. Either way the second line is never asked for.
\<close>

theorem empty_input_returns_to_agent:
  "fst (engineer [question_reply]
          (new_engineer ''summary'' ''feat'' mounted_app False ['''', ''a landing page''])) = AwaitingAgent \<and>
   human_lines (snd (engineer [question_reply]
          (new_engineer ''summary'' ''feat'' mounted_app False ['''', ''a landing page'']))) = [''a landing page''] \<and>
   conversation_history (snd (engineer [question_reply]
          (new_engineer ''summary'' ''feat'' mounted_app False ['''', ''a landing page'']))) =
      [(Assistant, ''What do you want?'')] \<and>
   length (sent (snd (engineer [question_reply]
          (new_engineer ''summary'' ''feat'' mounted_app False ['''', ''a landing page''])))) = 1 \<and>
   fst (engineer [question_reply, []]
          (new_engineer ''summary'' ''feat'' mounted_app False ['''', ''a landing page''])) = Done \<and>
   human_lines (snd (engineer [question_reply, []]
          (new_engineer ''summary'' ''feat'' mounted_app False ['''', ''a landing page'']))) = [''a landing page'']"
  by code_simp

end
